theory Spec2Isabelle
  imports Complex_Main
begin

section \<open>Python values used by \<^verbatim>\<open>transcribe_youtube.py\<close>\<close>

text \<open>
  Exceptions are values. Every constructor is an instance of a subclass of Python's
  \<^verbatim>\<open>Exception\<close>, so \<^verbatim>\<open>except Exception\<close> catches each of them. The string is
  what \<^verbatim>\<open>str(e)\<close> gives. \<open>TranscriptsDisabled\<close>, \<open>NoTranscriptFound\<close> and
  \<open>VideoUnavailable\<close> are the three classes the script imports from the transcript
  library; \<open>OtherException\<close> stands for any other exception a library call raises (a
  network failure, a track that cannot be translated).
\<close>

datatype exn =
    TranscriptsDisabled string
  | NoTranscriptFound string
  | VideoUnavailable string
  | StopIteration
  | ValueError string
  | IndexError string
  | Exception string
  | OtherException string

fun str_exn :: "exn \<Rightarrow> string" where
  "str_exn (TranscriptsDisabled m) = m"
| "str_exn (NoTranscriptFound m) = m"
| "str_exn (VideoUnavailable m) = m"
| "str_exn StopIteration = []"
| "str_exn (ValueError m) = m"
| "str_exn (IndexError m) = m"
| "str_exn (Exception m) = m"
| "str_exn (OtherException m) = m"

subsection \<open>Strings\<close>

text \<open>\<^verbatim>\<open>s.startswith(p)\<close>, \<^verbatim>\<open>sub in s\<close>, \<^verbatim>\<open>s.strip(c)\<close> and \<^verbatim>\<open>s.split(c)\<close> for a
  one-character \<open>c\<close>.\<close>

fun startswith :: "string \<Rightarrow> string \<Rightarrow> bool" where
  "startswith s [] = True"
| "startswith [] (p # ps) = False"
| "startswith (c # cs) (p # ps) = (c = p \<and> startswith cs ps)"

fun py_in :: "string \<Rightarrow> string \<Rightarrow> bool" where
  "py_in sub [] = (sub = [])"
| "py_in sub (c # cs) = (startswith (c # cs) sub \<or> py_in sub cs)"

definition strip :: "char \<Rightarrow> string \<Rightarrow> string" where
  "strip c s = rev (dropWhile (\<lambda>x. x = c) (rev (dropWhile (\<lambda>x. x = c) s)))"

fun split :: "char \<Rightarrow> string \<Rightarrow> string list" where
  "split c [] = [[]]"
| "split c (x # xs) =
     (if x = c then [] # split c xs
      else (case split c xs of
              [] \<Rightarrow> [[x]]
            | w # ws \<Rightarrow> (x # w) # ws))"

definition digit_char :: "nat \<Rightarrow> char" where
  "digit_char d = ''0123456789'' ! d"

text \<open>\<^verbatim>\<open>str(n)\<close> for a natural number, and the format specification \<^verbatim>\<open>02d\<close>: the
  decimal digits, filled with zeros on the left up to a width of two; a negative number
  carries its sign and is already two characters wide.\<close>

fun str_nat :: "nat \<Rightarrow> string" where
  "str_nat n =
     (if n < 10 then [digit_char n]
      else str_nat (n div 10) @ [digit_char (n mod 10)])"

definition format_02d :: "int \<Rightarrow> string" where
  "format_02d i =
     (if i < 0 then CHR ''-'' # str_nat (nat (- i))
      else (let digits = str_nat (nat i)
            in replicate (2 - length digits) CHR ''0'' @ digits))"

subsection \<open>Numbers\<close>

text \<open>
  A Python \<^verbatim>\<open>float\<close> is modelled by the rational number it denotes, with exact
  arithmetic: \<^verbatim>\<open>x // y\<close> is the floor of the quotient (still a float), \<^verbatim>\<open>x % y\<close> the
  remainder with the sign of \<open>y\<close>, and \<^verbatim>\<open>int(x)\<close> truncates towards zero. The divisors
  in the script are the constants 3600 and 60, so no division by zero arises.

  The source computes in double precision. For a number of seconds that is not negative
  and lies below \<open>2 ^ 53\<close>, every intermediate value of \<open>format_timestamp\<close> (the
  remainders, the difference that is divided, the quotients) is itself a double, so the
  source rounds nowhere and the exact model is what it computes. Outside that range the
  source's quotient or remainder may be rounded, and at \<^verbatim>\<open>inf\<close> and \<^verbatim>\<open>nan\<close>, which are
  not values of the model, \<^verbatim>\<open>int\<close> raises: nothing below is stated there.
\<close>

definition py_floordiv :: "rat \<Rightarrow> rat \<Rightarrow> rat" where
  "py_floordiv x y = of_int \<lfloor>x / y\<rfloor>"

definition py_mod :: "rat \<Rightarrow> rat \<Rightarrow> rat" where
  "py_mod x y = x - y * of_int \<lfloor>x / y\<rfloor>"

definition py_int :: "rat \<Rightarrow> int" where
  "py_int x = (if 0 \<le> x then \<lfloor>x\<rfloor> else \<lceil>x\<rceil>)"

section \<open>\<^verbatim>\<open>extract_video_id\<close>\<close>

text \<open>
  \<^verbatim>\<open>urllib.parse.urlparse\<close> and \<^verbatim>\<open>parse_qs\<close> belong to the standard library, not to
  the script: they are parameters. \<open>urlparse\<close> returns the parsed parts (the script reads
  \<open>netloc\<close>, \<open>path\<close> and \<open>query\<close>) or raises; \<open>parse_qs\<close> returns a dictionary from
  parameter names to the lists of their values. The function returns Python's
  \<^verbatim>\<open>None\<close> as \<open>Inr None\<close>.
\<close>

record parse_result =
  netloc :: string
  path :: string
  query :: string

definition extract_video_id ::
  "(string \<Rightarrow> exn + parse_result) \<Rightarrow> (string \<Rightarrow> (string \<rightharpoonup> string list)) \<Rightarrow>
   string \<Rightarrow> exn + string option" where
  "extract_video_id urlparse parse_qs youtube_url =
     (if py_in ''youtu.be'' youtube_url then
        (case urlparse youtube_url of
           Inl e \<Rightarrow> Inl e
         | Inr parsed \<Rightarrow> Inr (Some (strip CHR ''/'' (path parsed))))
      else
        (case urlparse youtube_url of
           Inl e \<Rightarrow> Inl e
         | Inr parsed \<Rightarrow>
             if py_in ''youtube.com'' (netloc parsed) then
               if py_in ''/watch'' (path parsed) then
                 (case parse_qs (query parsed) ''v'' of
                    None \<Rightarrow> Inr None
                  | Some [] \<Rightarrow> Inl (IndexError ''list index out of range'')
                  | Some (v # vs) \<Rightarrow> Inr (Some v))
               else if py_in ''/embed/'' (path parsed) \<or> py_in ''/v/'' (path parsed) then
                 Inr (Some (last (split CHR ''/'' (path parsed))))
               else Inr (Some youtube_url)
             else Inr (Some youtube_url)))"

section \<open>\<^verbatim>\<open>format_timestamp\<close>\<close>

definition format_timestamp :: "rat \<Rightarrow> string" where
  "format_timestamp seconds =
     (let hours = py_int (py_floordiv seconds 3600);
          minutes = py_int (py_floordiv (py_mod seconds 3600) 60);
          secs = py_int (py_mod seconds 60)
      in if hours > 0
         then format_02d hours @ '':'' @ format_02d minutes @ '':'' @ format_02d secs
         else format_02d minutes @ '':'' @ format_02d secs)"

section \<open>The transcript library's objects\<close>

text \<open>
  A fetched snippet has a text, a start and a duration. A \<open>transcript\<close> is one caption
  track of the catalog: its language code, whether it is machine-generated, and what its
  two remote calls do: \<open>fetch\<close> returns the snippets or raises, \<open>translate\<close> returns
  the translated track (a transcript again) or raises. A call has one outcome per track:
  fetching the same track a second time gives what the first call gave.
\<close>

record snippet =
  snippet_text :: string
  start :: rat
  duration :: rat

datatype transcript = Transcript
  (language_code: string)
  (is_generated: bool)
  (fetch: "exn + snippet list")
  (translate: "string \<Rightarrow> exn + transcript")

text \<open>
  Modelled from the spec: the transcript library's \<^verbatim>\<open>TranscriptList\<close> is not part of the
  repository. The catalog is the list of its tracks in iteration order.
  \<^verbatim>\<open>find_manually_created_transcript\<close> and \<^verbatim>\<open>find_generated_transcript\<close> follow the
  spec's steps 1 and 2: among the tracks of the wanted origin, the first whose language
  code appears in the preferred languages, searched in the order of the preferred
  languages and not of the catalog; \<^verbatim>\<open>NoTranscriptFound\<close> is raised when there is none.
\<close>

fun find_by_language :: "string list \<Rightarrow> transcript list \<Rightarrow> exn + transcript" where
  "find_by_language [] ts = Inl (NoTranscriptFound [])"
| "find_by_language (l # ls) ts =
     (case List.find (\<lambda>t. language_code t = l) ts of
        Some t \<Rightarrow> Inr t
      | None \<Rightarrow> find_by_language ls ts)"

definition find_manually_created_transcript ::
  "transcript list \<Rightarrow> string list \<Rightarrow> exn + transcript" where
  "find_manually_created_transcript transcript_list languages =
     find_by_language languages (filter (\<lambda>t. \<not> is_generated t) transcript_list)"

definition find_generated_transcript ::
  "transcript list \<Rightarrow> string list \<Rightarrow> exn + transcript" where
  "find_generated_transcript transcript_list languages =
     find_by_language languages (filter is_generated transcript_list)"

section \<open>\<^verbatim>\<open>get_transcript\<close>\<close>

text \<open>The returned triple: the fetched snippets, the language code, the transcript
  type.\<close>

type_synonym fetched = "snippet list \<times> string \<times> string"

text \<open>The expression \<^verbatim>\<open>"auto-generated" if transcript.is_generated else "manual"\<close>.\<close>

definition transcript_type_of :: "transcript \<Rightarrow> string" where
  "transcript_type_of t = (if is_generated t then ''auto-generated'' else ''manual'')"

text \<open>
  The two inner \<^verbatim>\<open>try\<close> blocks (lines 84-88 and 91-95): find a track, fetch it and
  return. \<open>Inr (Some r)\<close> is the \<^verbatim>\<open>return\<close>, \<open>Inr None\<close> is the \<^verbatim>\<open>pass\<close> after a
  \<^verbatim>\<open>NoTranscriptFound\<close> raised by the search or by the fetch, and \<open>Inl e\<close> is any other
  exception, which leaves the block.
\<close>

definition try_preferred ::
  "exn + transcript \<Rightarrow> string \<Rightarrow> exn + fetched option" where
  "try_preferred found transcript_type =
     (case found of
        Inl (NoTranscriptFound m) \<Rightarrow> Inr None
      | Inl e \<Rightarrow> Inl e
      | Inr t \<Rightarrow>
          (case fetch t of
             Inl (NoTranscriptFound m) \<Rightarrow> Inr None
           | Inl e \<Rightarrow> Inl e
           | Inr snippets \<Rightarrow> Inr (Some (snippets, language_code t, transcript_type))))"

text \<open>The body of the \<^verbatim>\<open>try\<close> inside the loop (lines 100-105) for one track.\<close>

definition try_track :: "transcript \<Rightarrow> exn + fetched" where
  "try_track t =
     (if startswith (language_code t) ''en'' then
        (case fetch t of
           Inl e \<Rightarrow> Inl e
         | Inr snippets \<Rightarrow> Inr (snippets, language_code t, transcript_type_of t))
      else
        (case translate t ''en'' of
           Inl e \<Rightarrow> Inl e
         | Inr translated \<Rightarrow>
             (case fetch translated of
                Inl e \<Rightarrow> Inl e
              | Inr snippets \<Rightarrow>
                  Inr (snippets, ''en (translated from '' @ language_code t @ '')'',
                       ''translated''))))"

text \<open>The loop (lines 98-107): \<^verbatim>\<open>except Exception: continue\<close> goes on with the next
  track; \<open>None\<close> is the loop running to its end without a \<^verbatim>\<open>return\<close>.\<close>

fun scan :: "transcript list \<Rightarrow> fetched option" where
  "scan [] = None"
| "scan (t # ts) =
     (case try_track t of
        Inr r \<Rightarrow> Some r
      | Inl e \<Rightarrow> scan ts)"

text \<open>Lines 110-112: \<^verbatim>\<open>next(iter(transcript_list))\<close> raises \<^verbatim>\<open>StopIteration\<close> on an
  empty catalog.\<close>

definition first_available :: "transcript list \<Rightarrow> exn + fetched" where
  "first_available transcript_list =
     (case transcript_list of
        [] \<Rightarrow> Inl StopIteration
      | t # ts \<Rightarrow>
          (case fetch t of
             Inl e \<Rightarrow> Inl e
           | Inr snippets \<Rightarrow> Inr (snippets, language_code t, transcript_type_of t)))"

text \<open>The body of the outer \<^verbatim>\<open>try\<close> (lines 81-112). \<open>ytt_api_list\<close> is the library call
  \<^verbatim>\<open>ytt_api.list(video_id)\<close>: it returns the catalog or raises.\<close>

definition get_transcript_body ::
  "(string \<Rightarrow> exn + transcript list) \<Rightarrow> string \<Rightarrow> string list \<Rightarrow> exn + fetched" where
  "get_transcript_body ytt_api_list video_id languages =
     (case ytt_api_list video_id of
        Inl e \<Rightarrow> Inl e
      | Inr transcript_list \<Rightarrow>
          (case try_preferred (find_manually_created_transcript transcript_list languages)
                  ''manual'' of
             Inl e \<Rightarrow> Inl e
           | Inr (Some r) \<Rightarrow> Inr r
           | Inr None \<Rightarrow>
               (case try_preferred (find_generated_transcript transcript_list languages)
                       ''auto-generated'' of
                  Inl e \<Rightarrow> Inl e
                | Inr (Some r) \<Rightarrow> Inr r
                | Inr None \<Rightarrow>
                    (case scan transcript_list of
                       Some r \<Rightarrow> Inr r
                     | None \<Rightarrow> first_available transcript_list))))"

text \<open>The three \<^verbatim>\<open>except\<close> clauses of the outer \<^verbatim>\<open>try\<close> (lines 114-119).\<close>

fun reraise :: "exn \<Rightarrow> exn" where
  "reraise (TranscriptsDisabled m) = Exception ''Transcripts are disabled for this video''"
| "reraise (VideoUnavailable m) = Exception ''Video is unavailable''"
| "reraise (NoTranscriptFound m) = Exception ''No transcript found for this video''"
| "reraise e = e"

text \<open>Lines 73-74: the default of the parameter \<^verbatim>\<open>languages\<close>.\<close>

definition languages_or_default :: "string list option \<Rightarrow> string list" where
  "languages_or_default languages =
     (case languages of
        None \<Rightarrow> [''en'', ''en-US'', ''en-GB'']
      | Some ls \<Rightarrow> ls)"

definition get_transcript ::
  "(string \<Rightarrow> exn + transcript list) \<Rightarrow> string \<Rightarrow> string list option \<Rightarrow> exn + fetched" where
  "get_transcript ytt_api_list video_id languages =
     (case get_transcript_body ytt_api_list video_id (languages_or_default languages) of
        Inl e \<Rightarrow> Inl (reraise e)
      | Inr r \<Rightarrow> Inr r)"

section \<open>\<^verbatim>\<open>main\<close>\<close>

text \<open>
  What one run of the script does: the strings it prints (one per \<^verbatim>\<open>print\<close> call), the
  file it writes (path and content) if it gets that far, the exception that leaves
  \<^verbatim>\<open>main\<close> uncaught if there is one, and the exit status of the process (1 after
  \<^verbatim>\<open>sys.exit(1)\<close> and after an uncaught exception). Creating the directory and writing
  the file are taken to succeed.
\<close>

record outcome =
  stdout :: "string list"
  written :: "(string \<times> string) option"
  uncaught :: "exn option"
  exit_status :: nat

text \<open>The collaborators of one run: the two standard-library functions, the transcript
  library's \<^verbatim>\<open>list\<close> call, and the directory of the script.\<close>

record env =
  env_urlparse :: "string \<Rightarrow> exn + parse_result"
  env_parse_qs :: "string \<Rightarrow> (string \<rightharpoonup> string list)"
  env_ytt_api_list :: "string \<Rightarrow> exn + transcript list"
  env_script_dir :: string

definition exit_with :: "string list \<Rightarrow> outcome" where
  "exit_with printed = \<lparr>stdout = printed, written = None, uncaught = None, exit_status = 1\<rparr>"

definition newline :: string where
  "newline = [CHR 0x0A]"

definition rule80 :: string where
  "rule80 = replicate 80 CHR ''=''"

text \<open>\<^verbatim>\<open>sep.join(xs)\<close>.\<close>

fun join :: "string \<Rightarrow> string list \<Rightarrow> string" where
  "join sep [] = []"
| "join sep [x] = x"
| "join sep (x # y # ys) = x @ sep @ join sep (y # ys)"

text \<open>\<^verbatim>\<open>re.sub(r'[^\w\-]', '_', video_id)\<close> on ASCII text: letters, digits, the
  underscore and the hyphen stay, every other character becomes an underscore.\<close>

definition word_or_hyphen :: "char \<Rightarrow> bool" where
  "word_or_hyphen c \<longleftrightarrow>
     c \<in> set (''abcdefghijklmnopqrstuvwxyz'' @ ''ABCDEFGHIJKLMNOPQRSTUVWXYZ'' @ ''0123456789_-'')"

definition sanitize :: "string \<Rightarrow> string" where
  "sanitize video_id = map (\<lambda>c. if word_or_hyphen c then c else CHR ''_'') video_id"

text \<open>One line of the timestamped rendering (lines 155-161 and 184-189). The sum of
  start and duration is exact here; the source rounds it to a double.\<close>

definition segment_line :: "snippet \<Rightarrow> string" where
  "segment_line segment =
     (let end_seconds = start segment + duration segment;
          timestamp = ''['' @ format_timestamp (start segment) @ '' -> '' @
                      format_timestamp end_seconds @ '']''
      in timestamp @ '' '' @ snippet_text segment)"

definition main :: "env \<Rightarrow> string list \<Rightarrow> outcome" where
  "main env argv =
     (if length argv < 2 then
        exit_with [''Usage: python transcribe_youtube.py <youtube_url>'',
                   ''Example: python transcribe_youtube.py https://www.youtube.com/watch?v=dQw4w9WgXcQ'']
      else
        (let youtube_url = argv ! 1 in
         case extract_video_id (env_urlparse env) (env_parse_qs env) youtube_url of
           Inl e \<Rightarrow> \<lparr>stdout = [], written = None, uncaught = Some e, exit_status = 1\<rparr>
         | Inr None \<Rightarrow> exit_with [''Error: Could not extract video ID from URL'']
         | Inr (Some video_id) \<Rightarrow>
             if video_id = [] then exit_with [''Error: Could not extract video ID from URL'']
             else
               (let printed = [''YouTube URL: '' @ youtube_url,
                               ''Video ID: '' @ video_id,
                               newline @ ''Fetching transcript...''] in
                case get_transcript (env_ytt_api_list env) video_id None of
                  Inl e \<Rightarrow> exit_with (printed @ [''Error: '' @ str_exn e])
                | Inr (transcript, language, transcript_type) \<Rightarrow>
                    (let language_line = ''Language: '' @ language @ '' ('' @ transcript_type @ '')'';
                         full_text_combined = join '' '' (map snippet_text transcript);
                         output_file = env_script_dir env @ ''/transcriptions/'' @
                                       sanitize video_id @ ''.txt'';
                         content =
                           ''Video ID: '' @ video_id @ newline @
                           ''URL: '' @ youtube_url @ newline @
                           language_line @ newline @
                           rule80 @ newline @ newline @
                           ''TIMESTAMPED TRANSCRIPTION:'' @ newline @ newline @
                           concat (map (\<lambda>segment. segment_line segment @ newline) transcript) @
                           newline @ rule80 @ newline @
                           ''FULL TEXT:'' @ newline @ newline @
                           full_text_combined
                     in \<lparr>stdout =
                           printed @
                           [language_line,
                            ''Found '' @ str_nat (length transcript) @ '' segments'',
                            newline @ rule80,
                            ''TIMESTAMPED TRANSCRIPTION'',
                            rule80 @ newline] @
                           map segment_line transcript @
                           [newline @ rule80,
                            ''FULL TEXT'',
                            rule80 @ newline,
                            full_text_combined,
                            newline @ ''Transcription saved to: '' @ output_file],
                         written = Some (output_file, content),
                         uncaught = None,
                         exit_status = 0\<rparr>))))"

section \<open>Example inputs\<close>

text \<open>The tracks and parsers at which the theorems below are evaluated: a track that
  fetches and cannot be translated, a track that fetches and translates, a track whose
  fetch is refused, the parse of a bare video identifier, and an empty query.\<close>

definition said :: "string \<Rightarrow> snippet list" where
  "said words = [\<lparr>snippet_text = words, start = 0, duration = 3 / 2\<rparr>]"

definition not_translatable :: "string \<Rightarrow> exn + transcript" where
  "not_translatable l = Inl (OtherException ''not translatable'')"

definition plain_track :: "string \<Rightarrow> bool \<Rightarrow> string \<Rightarrow> transcript" where
  "plain_track code generated words =
     Transcript code generated (Inr (said words)) not_translatable"

definition translatable_track :: "string \<Rightarrow> bool \<Rightarrow> string \<Rightarrow> string \<Rightarrow> transcript" where
  "translatable_track code generated words translated_words =
     Transcript code generated (Inr (said words))
       (\<lambda>l. Inr (plain_track l True translated_words))"

definition blocked_track :: "string \<Rightarrow> bool \<Rightarrow> transcript" where
  "blocked_track code generated =
     Transcript code generated (Inl (OtherException ''request blocked'')) not_translatable"

definition bare_id_parse :: "string \<Rightarrow> exn + parse_result" where
  "bare_id_parse u = Inr \<lparr>netloc = [], path = u, query = []\<rparr>"

definition no_query :: "string \<Rightarrow> (string \<rightharpoonup> string list)" where
  "no_query q = Map.empty"

section \<open>Auxiliary facts\<close>

declare str_nat.simps [simp del]

lemmas ex_defs = said_def not_translatable_def plain_track_def translatable_track_def
  blocked_track_def languages_or_default_def

text \<open>\<^verbatim>\<open>s.split(c)\<close> never returns an empty list, so the index \<^verbatim>\<open>[-1]\<close> in
  \<open>extract_video_id\<close> cannot fail.\<close>

lemma split_nonempty: "split c s \<noteq> []"
  by (induction s) (auto split: list.splits)

subsection \<open>The search by language\<close>

lemma find_by_language_none:
  "\<forall>t\<in>set ts. language_code t \<notin> set ls \<Longrightarrow> find_by_language ls ts = Inl (NoTranscriptFound [])"
proof (induction ls)
  case Nil
  show ?case by simp
next
  case (Cons l ls)
  then have "List.find (\<lambda>t. language_code t = l) ts = None"
    by (auto simp: find_None_iff)
  with Cons show ?case by simp
qed

lemma find_by_language_skip:
  "\<forall>t\<in>set ts. language_code t \<notin> set before \<Longrightarrow>
   find_by_language (before @ ls) ts = find_by_language ls ts"
proof (induction before)
  case Nil
  show ?case by simp
next
  case (Cons b before)
  then have "List.find (\<lambda>t. language_code t = b) ts = None"
    by (auto simp: find_None_iff)
  with Cons show ?case by simp
qed

lemma find_by_language_hit:
  assumes "\<exists>t\<in>set ts. language_code t = l"
  shows "\<exists>t. t \<in> set ts \<and> language_code t = l \<and> find_by_language (l # ls) ts = Inr t"
proof -
  from assms obtain t where "List.find (\<lambda>t. language_code t = l) ts = Some t"
    by (cases "List.find (\<lambda>t. language_code t = l) ts") (auto simp: find_None_iff)
  moreover from this have "t \<in> set ts \<and> language_code t = l"
    by (auto simp: find_Some_iff)
  ultimately show ?thesis by auto
qed

lemma find_by_language_first:
  assumes "\<forall>t\<in>set ts. language_code t \<notin> set before"
    and "\<exists>t\<in>set ts. language_code t = l"
  shows "\<exists>t. t \<in> set ts \<and> language_code t = l \<and>
             find_by_language (before @ l # after) ts = Inr t"
  using find_by_language_skip [OF assms(1)] find_by_language_hit [OF assms(2)] by simp

lemma find_by_language_result:
  "find_by_language ls ts = Inr t \<Longrightarrow> t \<in> set ts"
  by (induction ls) (auto split: option.splits simp: find_Some_iff)

lemma find_by_language_error:
  "find_by_language ls ts = Inl e \<Longrightarrow> e = NoTranscriptFound []"
  by (induction ls) (auto split: option.splits)

subsection \<open>The preferred-language blocks\<close>

lemma try_preferred_found:
  "found = Inr t \<Longrightarrow> fetch t = Inr snippets \<Longrightarrow>
   try_preferred found ty = Inr (Some (snippets, language_code t, ty))"
  by (simp add: try_preferred_def)

lemma try_preferred_not_found:
  "try_preferred (Inl (NoTranscriptFound m)) ty = Inr None"
  by (simp add: try_preferred_def)

lemma try_preferred_error:
  assumes "try_preferred (find_by_language ls ts) ty = Inl e"
  shows "\<exists>t\<in>set ts. fetch t = Inl e"
proof (cases "find_by_language ls ts")
  case (Inl e')
  then have "e' = NoTranscriptFound []" by (rule find_by_language_error)
  with Inl assms show ?thesis by (simp add: try_preferred_def)
next
  case (Inr t)
  then have "t \<in> set ts" by (rule find_by_language_result)
  moreover from Inr assms have "fetch t = Inl e"
    by (auto simp: try_preferred_def split: sum.splits exn.splits)
  ultimately show ?thesis by blast
qed

lemma no_manual_match:
  "\<forall>t\<in>set catalog. \<not> is_generated t \<longrightarrow> language_code t \<notin> set ls \<Longrightarrow>
   try_preferred (find_manually_created_transcript catalog ls) ty = Inr None"
  by (simp add: find_manually_created_transcript_def find_by_language_none try_preferred_not_found)

lemma no_generated_match:
  "\<forall>t\<in>set catalog. is_generated t \<longrightarrow> language_code t \<notin> set ls \<Longrightarrow>
   try_preferred (find_generated_transcript catalog ls) ty = Inr None"
  by (simp add: find_generated_transcript_def find_by_language_none try_preferred_not_found)

subsection \<open>One track of the loop, and the loop\<close>


lemma try_track_translated:
  "\<not> startswith (language_code t) ''en'' \<Longrightarrow> translate t ''en'' = Inr translated \<Longrightarrow>
   fetch translated = Inr snippets \<Longrightarrow>
   try_track t = Inr (snippets, ''en (translated from '' @ language_code t @ '')'', ''translated'')"
  by (simp add: try_track_def)

lemma try_track_translate_fails:
  "\<not> startswith (language_code t) ''en'' \<Longrightarrow> translate t ''en'' = Inl e \<Longrightarrow>
   try_track t = Inl e"
  by (simp add: try_track_def)

lemma scan_all_fail:
  "\<forall>u\<in>set ts. isl (try_track u) \<Longrightarrow> scan ts = None"
  by (induction ts) (auto split: sum.splits)

lemma scan_first_success:
  "\<forall>u\<in>set before. isl (try_track u) \<Longrightarrow> try_track t = Inr r \<Longrightarrow>
   scan (before @ t # after) = Some r"
  by (induction before) (auto split: sum.splits)

subsection \<open>The function as a whole\<close>

lemma no_match_reaches_scan:
  assumes "ytt_api_list video_id = Inr catalog"
    and "\<forall>t\<in>set catalog. language_code t \<notin> set (languages_or_default languages)"
  shows "get_transcript ytt_api_list video_id languages =
           (case scan catalog of
              Some r \<Rightarrow> Inr r
            | None \<Rightarrow> (case first_available catalog of
                         Inl e \<Rightarrow> Inl (reraise e)
                       | Inr r \<Rightarrow> Inr r))"
proof -
  have "try_preferred (find_manually_created_transcript catalog
          (languages_or_default languages)) ''manual'' = Inr None"
    using assms(2) by (intro no_manual_match) simp
  moreover have "try_preferred (find_generated_transcript catalog
          (languages_or_default languages)) ''auto-generated'' = Inr None"
    using assms(2) by (intro no_generated_match) simp
  ultimately show ?thesis
    by (simp add: get_transcript_def get_transcript_body_def assms(1) split: option.splits)
qed

lemma first_available_error:
  "first_available catalog = Inl e \<Longrightarrow>
   (catalog = [] \<and> e = StopIteration) \<or> (\<exists>t\<in>set catalog. fetch t = Inl e)"
  by (auto simp: first_available_def split: list.splits sum.splits)

lemma get_transcript_body_error:
  assumes "get_transcript_body ytt_api_list video_id ls = Inl e"
  shows "ytt_api_list video_id = Inl e \<or>
         (\<exists>catalog. ytt_api_list video_id = Inr catalog \<and>
            ((\<exists>t\<in>set catalog. fetch t = Inl e) \<or> (catalog = [] \<and> e = StopIteration)))"
proof (cases "ytt_api_list video_id")
  case (Inl e')
  with assms show ?thesis by (simp add: get_transcript_body_def)
next
  case (Inr catalog)
  let ?m = "try_preferred (find_manually_created_transcript catalog ls) ''manual''"
  let ?g = "try_preferred (find_generated_transcript catalog ls) ''auto-generated''"
  have "(\<exists>t\<in>set catalog. fetch t = Inl e) \<or> (catalog = [] \<and> e = StopIteration)"
  proof (cases ?m)
    case (Inl e')
    with assms Inr have "e' = e" by (simp add: get_transcript_body_def)
    with Inl show ?thesis
      using try_preferred_error [of ls "filter (\<lambda>t. \<not> is_generated t) catalog" "''manual''" e]
      by (auto simp: find_manually_created_transcript_def)
  next
    case m: (Inr m)
    show ?thesis
    proof (cases m)
      case (Some r)
      with m assms Inr show ?thesis by (simp add: get_transcript_body_def)
    next
      case None
      show ?thesis
      proof (cases ?g)
        case (Inl e')
        with assms Inr m None have "e' = e" by (simp add: get_transcript_body_def)
        with Inl show ?thesis
          using try_preferred_error [of ls "filter is_generated catalog" "''auto-generated''" e]
          by (auto simp: find_generated_transcript_def)
      next
        case g: (Inr g)
        show ?thesis
        proof (cases g)
          case (Some r)
          with g m None assms Inr show ?thesis by (simp add: get_transcript_body_def)
        next
          case gNone: None
          with g m None assms Inr have "first_available catalog = Inl e"
            by (simp add: get_transcript_body_def split: option.splits)
          then show ?thesis using first_available_error by blast
        qed
      qed
    qed
  qed
  with Inr show ?thesis by blast
qed

lemma get_transcript_list_error:
  "ytt_api_list video_id = Inl e \<Longrightarrow> get_transcript ytt_api_list video_id languages = Inl (reraise e)"
  by (simp add: get_transcript_def get_transcript_body_def)

lemma main_error:
  assumes "2 \<le> length argv"
    and "extract_video_id (env_urlparse env) (env_parse_qs env) (argv ! 1) = Inr (Some video_id)"
    and "video_id \<noteq> []"
    and "get_transcript (env_ytt_api_list env) video_id None = Inl e"
  shows "main env argv =
           exit_with [''YouTube URL: '' @ argv ! 1, ''Video ID: '' @ video_id,
                      newline @ ''Fetching transcript...'', ''Error: '' @ str_exn e]"
  using assms by (simp add: main_def Let_def)

section \<open>The selection policy\<close>

subsection \<open>Preferred languages: manual tracks first\<close>

text \<open>
  C3. Let the catalog hold at least one track that is not generated and whose language
  code is one of the preferred languages, and let \<open>l\<close> be the first preferred language,
  in the order of the preference list, that such a track has. Then \<open>get_transcript\<close>
  returns the snippets of a manual track of the catalog with language code \<open>l\<close>,
  with \<open>l\<close> as the language and \<open>manual\<close> as the transcript type, wherever that track
  stands in the catalog. The fetch of the track is taken to return, as the fetch of the
  spec's resolver does.
\<close>

theorem manual_preferred:
  assumes "ytt_api_list video_id = Inr catalog"
    and "languages_or_default languages = before @ l # after"
    and "\<forall>t\<in>set catalog. \<not> is_generated t \<longrightarrow> language_code t \<notin> set before"
    and "\<exists>t\<in>set catalog. \<not> is_generated t \<and> language_code t = l"
    and "\<forall>t\<in>set catalog. \<not> is_generated t \<and> language_code t = l \<longrightarrow>
           (\<exists>snippets. fetch t = Inr snippets)"
  shows "\<exists>t snippets. t \<in> set catalog \<and> \<not> is_generated t \<and> language_code t = l \<and>
           fetch t = Inr snippets \<and>
           get_transcript ytt_api_list video_id languages = Inr (snippets, l, ''manual'')"
proof -
  let ?manual = "filter (\<lambda>t. \<not> is_generated t) catalog"
  have "\<forall>t\<in>set ?manual. language_code t \<notin> set before"
    using assms(3) by simp
  moreover have "\<exists>t\<in>set ?manual. language_code t = l"
    using assms(4) by auto
  ultimately obtain t where t: "t \<in> set ?manual" "language_code t = l"
    and found: "find_by_language (before @ l # after) ?manual = Inr t"
    using find_by_language_first by blast
  from t have mem: "t \<in> set catalog" "\<not> is_generated t" by simp_all
  with t(2) assms(5) obtain snippets where fetched: "fetch t = Inr snippets" by blast
  have "find_manually_created_transcript catalog (languages_or_default languages) = Inr t"
    using found by (simp add: find_manually_created_transcript_def assms(2))
  then have "try_preferred (find_manually_created_transcript catalog
               (languages_or_default languages)) ''manual'' = Inr (Some (snippets, l, ''manual''))"
    using fetched t(2) by (simp add: try_preferred_found)
  then have "get_transcript ytt_api_list video_id languages = Inr (snippets, l, ''manual'')"
    by (simp add: get_transcript_def get_transcript_body_def assms(1))
  with mem t(2) fetched show ?thesis by blast
qed

text \<open>The catalog lists \<open>en-US\<close> before \<open>en\<close>; the preference list has \<open>en\<close> first, and
  the manual \<open>en\<close> track is returned, not the generated one that stands before it.\<close>

theorem manual_preferred_witness:
  "get_transcript
     (\<lambda>v. Inr [plain_track ''en-US'' False ''hello'', plain_track ''en'' True ''machine'',
               plain_track ''en'' False ''hi''])
     ''dQw4w9WgXcQ'' None = Inr (said ''hi'', ''en'', ''manual'')"
proof -
  let ?cat = "[plain_track ''en-US'' False ''hello'', plain_track ''en'' True ''machine'',
               plain_track ''en'' False ''hi'']"
  have "\<exists>t snippets. t \<in> set ?cat \<and> \<not> is_generated t \<and> language_code t = ''en'' \<and>
           fetch t = Inr snippets \<and>
           get_transcript (\<lambda>v. Inr ?cat) ''dQw4w9WgXcQ'' None = Inr (snippets, ''en'', ''manual'')"
    by (rule manual_preferred [where before = "[]" and after = "[''en-US'', ''en-GB'']"])
       (simp_all add: ex_defs)
  then show ?thesis by (auto simp: ex_defs)
qed

subsection \<open>Preferred languages: generated tracks second\<close>

text \<open>
  C6. If no track that is not generated has a language code among the preferred
  languages, but some generated track has, then \<open>get_transcript\<close> returns a generated
  track with transcript type \<open>auto-generated\<close>: the one whose language code \<open>l\<close> is the
  first preferred language, in the order of the preference list, that a generated track
  has. The fetch of the track is taken to return.
\<close>

theorem generated_preferred:
  assumes "ytt_api_list video_id = Inr catalog"
    and "\<forall>t\<in>set catalog. \<not> is_generated t \<longrightarrow>
           language_code t \<notin> set (languages_or_default languages)"
    and "languages_or_default languages = before @ l # after"
    and "\<forall>t\<in>set catalog. is_generated t \<longrightarrow> language_code t \<notin> set before"
    and "\<exists>t\<in>set catalog. is_generated t \<and> language_code t = l"
    and "\<forall>t\<in>set catalog. is_generated t \<and> language_code t = l \<longrightarrow>
           (\<exists>snippets. fetch t = Inr snippets)"
  shows "\<exists>t snippets. t \<in> set catalog \<and> is_generated t \<and> language_code t = l \<and>
           fetch t = Inr snippets \<and>
           get_transcript ytt_api_list video_id languages =
             Inr (snippets, l, ''auto-generated'')"
proof -
  let ?generated = "filter is_generated catalog"
  have "\<forall>t\<in>set ?generated. language_code t \<notin> set before"
    using assms(4) by simp
  moreover have "\<exists>t\<in>set ?generated. language_code t = l"
    using assms(5) by auto
  ultimately obtain t where t: "t \<in> set ?generated" "language_code t = l"
    and found: "find_by_language (before @ l # after) ?generated = Inr t"
    using find_by_language_first by blast
  from t have mem: "t \<in> set catalog" "is_generated t" by simp_all
  with t(2) assms(6) obtain snippets where fetched: "fetch t = Inr snippets" by blast
  have "find_generated_transcript catalog (languages_or_default languages) = Inr t"
    using found by (simp add: find_generated_transcript_def assms(3))
  then have "try_preferred (find_generated_transcript catalog
               (languages_or_default languages)) ''auto-generated'' =
             Inr (Some (snippets, l, ''auto-generated''))"
    using fetched t(2) by (simp add: try_preferred_found)
  moreover have "try_preferred (find_manually_created_transcript catalog
               (languages_or_default languages)) ''manual'' = Inr None"
    using assms(2) by (rule no_manual_match)
  ultimately have "get_transcript ytt_api_list video_id languages =
      Inr (snippets, l, ''auto-generated'')"
    by (simp add: get_transcript_def get_transcript_body_def assms(1))
  with mem t(2) fetched show ?thesis by blast
qed

text \<open>The catalog lists the generated \<open>en-GB\<close> before the generated \<open>en-US\<close>; the
  preference list has \<open>en-US\<close> first.\<close>

theorem generated_preferred_witness:
  "get_transcript
     (\<lambda>v. Inr [plain_track ''fr'' False ''bonjour'', plain_track ''en-GB'' True ''colour'',
               plain_track ''en-US'' True ''color''])
     ''dQw4w9WgXcQ'' None = Inr (said ''color'', ''en-US'', ''auto-generated'')"
proof -
  let ?cat = "[plain_track ''fr'' False ''bonjour'', plain_track ''en-GB'' True ''colour'',
               plain_track ''en-US'' True ''color'']"
  have "\<exists>t snippets. t \<in> set ?cat \<and> is_generated t \<and> language_code t = ''en-US'' \<and>
           fetch t = Inr snippets \<and>
           get_transcript (\<lambda>v. Inr ?cat) ''dQw4w9WgXcQ'' None =
             Inr (snippets, ''en-US'', ''auto-generated'')"
    by (rule generated_preferred [where before = "[''en'']" and after = "[''en-GB'']"])
       (simp_all add: ex_defs)
  then show ?thesis by (auto simp: ex_defs)
qed

subsection \<open>The scan of the catalog\<close>

text \<open>
  C1. The spec has the first track whose language code starts with \<open>en\<close> returned
  untranslated whenever no track has a preferred language code, a translatable track
  that stands earlier in the catalog never being translated in its place. The loop of
  lines 98-107 does not do that: it is one pass over the catalog, in which each track in
  turn is fetched if its language code starts with \<open>en\<close> and translated otherwise. With
  a translatable Spanish track before an \<open>en-AU\<close> track and the default languages,
  \<open>get_transcript\<close> returns the translation of the Spanish track with the transcript
  type \<open>translated\<close>, and not the \<open>en-AU\<close> track.
\<close>

theorem earlier_track_translated_despite_english_track:
  "get_transcript
     (\<lambda>v. Inr [translatable_track ''es'' False ''hola'' ''hello'',
               plain_track ''en-AU'' False ''gday''])
     ''dQw4w9WgXcQ'' None = Inr (said ''hello'', ''en (translated from es)'', ''translated'')"
  by (simp add: ex_defs get_transcript_def get_transcript_body_def try_preferred_def
      find_manually_created_transcript_def find_generated_transcript_def try_track_def)

text \<open>
  C4. In the loop, a track that is not English and whose translation raises is skipped:
  the scan goes on with the next track. And when no track has a preferred language
  code, no track has a language code starting with \<open>en\<close>, and \<open>t\<close> is the first track
  in catalog order whose translation does not fail, then \<open>get_transcript\<close> returns the
  snippets of the translation of \<open>t\<close>, with the language
  \<open>en (translated from \<close> followed by the language code of \<open>t\<close> and \<open>)\<close>, and the
  transcript type \<open>translated\<close>. The fetch of the translation is taken to return.
\<close>

theorem translation_fallback:
  "(\<not> startswith (language_code t) ''en'' \<and> translate t ''en'' = Inl e \<longrightarrow>
      scan (t # ts) = scan ts) \<and>
   (ytt_api_list video_id = Inr (before @ t # after) \<and>
    (\<forall>u\<in>set (before @ t # after).
       language_code u \<notin> set (languages_or_default languages) \<and>
       \<not> startswith (language_code u) ''en'') \<and>
    (\<forall>u\<in>set before. isl (translate u ''en'')) \<and>
    translate t ''en'' = Inr translated \<and> fetch translated = Inr snippets \<longrightarrow>
      get_transcript ytt_api_list video_id languages =
        Inr (snippets, ''en (translated from '' @ language_code t @ '')'', ''translated''))"
proof (intro conjI impI)
  assume "\<not> startswith (language_code t) ''en'' \<and> translate t ''en'' = Inl e"
  then have "try_track t = Inl e" by (simp add: try_track_translate_fails)
  then show "scan (t # ts) = scan ts" by simp
next
  assume a: "ytt_api_list video_id = Inr (before @ t # after) \<and>
    (\<forall>u\<in>set (before @ t # after).
       language_code u \<notin> set (languages_or_default languages) \<and>
       \<not> startswith (language_code u) ''en'') \<and>
    (\<forall>u\<in>set before. isl (translate u ''en'')) \<and>
    translate t ''en'' = Inr translated \<and> fetch translated = Inr snippets"
  have "\<forall>u\<in>set before. isl (try_track u)"
  proof
    fix u assume u: "u \<in> set before"
    with a have "\<not> startswith (language_code u) ''en''" "isl (translate u ''en'')" by auto
    then show "isl (try_track u)"
      by (cases "translate u ''en''") (auto simp: try_track_translate_fails)
  qed
  moreover have "try_track t =
      Inr (snippets, ''en (translated from '' @ language_code t @ '')'', ''translated'')"
    using a by (intro try_track_translated) auto
  ultimately have "scan (before @ t # after) =
      Some (snippets, ''en (translated from '' @ language_code t @ '')'', ''translated'')"
    by (rule scan_first_success)
  moreover have "\<forall>u\<in>set (before @ t # after).
      language_code u \<notin> set (languages_or_default languages)"
    using a by blast
  ultimately show "get_transcript ytt_api_list video_id languages =
        Inr (snippets, ''en (translated from '' @ language_code t @ '')'', ''translated'')"
    using no_match_reaches_scan [of ytt_api_list video_id "before @ t # after" languages] a
    by simp
qed

theorem translation_fallback_witness:
  "scan [plain_track ''fr'' True ''salut'', translatable_track ''es'' False ''hola'' ''hello''] =
     scan [translatable_track ''es'' False ''hola'' ''hello''] \<and>
   get_transcript
     (\<lambda>v. Inr [plain_track ''fr'' True ''salut'', translatable_track ''es'' False ''hola'' ''hello'',
               translatable_track ''de'' True ''hallo'' ''hullo''])
     ''dQw4w9WgXcQ'' None = Inr (said ''hello'', ''en (translated from es)'', ''translated'')"
proof -
  let ?fr = "plain_track ''fr'' True ''salut''"
  let ?es = "translatable_track ''es'' False ''hola'' ''hello''"
  let ?de = "translatable_track ''de'' True ''hallo'' ''hullo''"
  let ?list = "\<lambda>v::string. (Inr ([?fr] @ ?es # [?de]) :: exn + transcript list)"
  have skip: "\<not> startswith (language_code ?fr) ''en'' \<and>
      translate ?fr ''en'' = Inl (OtherException ''not translatable'')"
    by (simp add: ex_defs)
  have chosen: "?list ''dQw4w9WgXcQ'' = Inr ([?fr] @ ?es # [?de]) \<and>
      (\<forall>u\<in>set ([?fr] @ ?es # [?de]).
         language_code u \<notin> set (languages_or_default None) \<and>
         \<not> startswith (language_code u) ''en'') \<and>
      (\<forall>u\<in>set [?fr]. isl (translate u ''en'')) \<and>
      translate ?es ''en'' = Inr (plain_track ''en'' True ''hello'') \<and>
      fetch (plain_track ''en'' True ''hello'') = Inr (said ''hello'')"
    by (simp add: ex_defs)
  from skip translation_fallback [of ?fr "OtherException ''not translatable''" "[?es]"]
  have "scan (?fr # [?es]) = scan [?es]" by blast
  moreover from chosen translation_fallback [where ytt_api_list = ?list
      and video_id = "''dQw4w9WgXcQ''" and before = "[?fr]" and t = ?es and after = "[?de]"
      and languages = None and translated = "plain_track ''en'' True ''hello''"
      and snippets = "said ''hello''"]
  have "get_transcript ?list ''dQw4w9WgXcQ'' None =
      Inr (said ''hello'', ''en (translated from '' @ language_code ?es @ '')'', ''translated'')"
    by blast
  ultimately show ?thesis by (simp add: ex_defs)
qed

text \<open>
  C5. If the catalog is not empty and a translation is tried for every track and fails
  (no track has a preferred language code, none has a language code starting with
  \<open>en\<close>, and every call of \<open>translate\<close> raises), then \<open>get_transcript\<close> returns the
  first track of the catalog untranslated: its snippets, its language code, and
  \<open>auto-generated\<close> if it is generated, \<open>manual\<close> if it is not. The fetch of the track
  is taken to return.
\<close>

theorem last_resort_first_track:
  assumes "ytt_api_list video_id = Inr (t # ts)"
    and "\<forall>u\<in>set (t # ts).
           language_code u \<notin> set (languages_or_default languages) \<and>
           \<not> startswith (language_code u) ''en'' \<and>
           isl (translate u ''en'')"
    and "fetch t = Inr snippets"
  shows "get_transcript ytt_api_list video_id languages =
           Inr (snippets, language_code t,
                if is_generated t then ''auto-generated'' else ''manual'')"
proof -
  have "\<forall>u\<in>set (t # ts). isl (try_track u)"
  proof
    fix u assume "u \<in> set (t # ts)"
    with assms(2) have "\<not> startswith (language_code u) ''en''" "isl (translate u ''en'')"
      by blast+
    then show "isl (try_track u)"
      by (cases "translate u ''en''") (auto simp: try_track_translate_fails)
  qed
  then have "scan (t # ts) = None" by (rule scan_all_fail)
  moreover have "first_available (t # ts) =
      Inr (snippets, language_code t, transcript_type_of t)"
    using assms(3) by (simp add: first_available_def)
  moreover have "\<forall>u\<in>set (t # ts). language_code u \<notin> set (languages_or_default languages)"
    using assms(2) by blast
  ultimately show ?thesis
    using no_match_reaches_scan [of ytt_api_list video_id "t # ts" languages] assms(1)
    by (simp add: transcript_type_of_def)
qed

theorem last_resort_first_track_witness:
  "get_transcript (\<lambda>v. Inr [plain_track ''fr'' True ''salut'', plain_track ''de'' False ''hallo''])
     ''dQw4w9WgXcQ'' None = Inr (said ''salut'', ''fr'', ''auto-generated'')"
proof -
  let ?t = "plain_track ''fr'' True ''salut''"
  have "get_transcript (\<lambda>v. Inr (?t # [plain_track ''de'' False ''hallo'']))
     ''dQw4w9WgXcQ'' None =
     Inr (said ''salut'', language_code ?t,
          if is_generated ?t then ''auto-generated'' else ''manual'')"
    by (rule last_resort_first_track [where ts = "[plain_track ''de'' False ''hallo'']"])
       (simp_all add: ex_defs)
  then show ?thesis by (simp add: ex_defs)
qed



section \<open>Errors\<close>

text \<open>
  C2. With an empty catalog, \<open>get_transcript\<close> raises \<open>StopIteration\<close>, which none of
  the \<^verbatim>\<open>except\<close> clauses of the function turns into the exception with the message
  \<open>No transcript found for this video\<close>.
\<close>

theorem empty_catalog_raises_StopIteration:
  "get_transcript (\<lambda>v. Inr []) video_id languages = Inl StopIteration"
  by (simp add: get_transcript_def get_transcript_body_def try_preferred_def
      find_manually_created_transcript_def find_generated_transcript_def
      find_by_language_none first_available_def)

text \<open>
  C7. When the call that lists the tracks raises \<open>TranscriptsDisabled\<close>,
  \<open>VideoUnavailable\<close> or \<open>NoTranscriptFound\<close>, \<open>get_transcript\<close> raises the exception
  with the message of that kind. Whenever \<open>get_transcript\<close> raises, \<open>main\<close> prints
  \<open>Error: \<close> and the message last, writes no file, and exits with status 1. And an
  exception that \<open>get_transcript\<close> raises comes from the listing call, from the fetch of
  a track of the catalog, or from taking the first track of an empty catalog: never from
  a call of \<open>translate\<close>.
\<close>

theorem resolver_errors_terminal:
  "(ytt_api_list video_id = Inl (TranscriptsDisabled m) \<longrightarrow>
      get_transcript ytt_api_list video_id languages =
        Inl (Exception ''Transcripts are disabled for this video'')) \<and>
   (ytt_api_list video_id = Inl (VideoUnavailable m) \<longrightarrow>
      get_transcript ytt_api_list video_id languages = Inl (Exception ''Video is unavailable'')) \<and>
   (ytt_api_list video_id = Inl (NoTranscriptFound m) \<longrightarrow>
      get_transcript ytt_api_list video_id languages =
        Inl (Exception ''No transcript found for this video'')) \<and>
   (2 \<le> length argv \<and>
    extract_video_id (env_urlparse env) (env_parse_qs env) (argv ! 1) = Inr (Some video_id) \<and>
    video_id \<noteq> [] \<and> get_transcript (env_ytt_api_list env) video_id None = Inl e \<longrightarrow>
      exit_status (main env argv) = 1 \<and> written (main env argv) = None \<and>
      uncaught (main env argv) = None \<and>
      last (stdout (main env argv)) = ''Error: '' @ str_exn e) \<and>
   (get_transcript ytt_api_list video_id languages = Inl e \<longrightarrow>
      (\<exists>raised. e = reraise raised \<and>
         (ytt_api_list video_id = Inl raised \<or>
          (\<exists>catalog. ytt_api_list video_id = Inr catalog \<and>
             ((\<exists>t\<in>set catalog. fetch t = Inl raised) \<or>
              (catalog = [] \<and> raised = StopIteration))))))"
proof (intro conjI impI)
  assume "ytt_api_list video_id = Inl (TranscriptsDisabled m)"
  then show "get_transcript ytt_api_list video_id languages =
        Inl (Exception ''Transcripts are disabled for this video'')"
    using get_transcript_list_error [of ytt_api_list video_id] by simp
next
  assume "ytt_api_list video_id = Inl (VideoUnavailable m)"
  then show "get_transcript ytt_api_list video_id languages = Inl (Exception ''Video is unavailable'')"
    using get_transcript_list_error [of ytt_api_list video_id] by simp
next
  assume "ytt_api_list video_id = Inl (NoTranscriptFound m)"
  then show "get_transcript ytt_api_list video_id languages =
        Inl (Exception ''No transcript found for this video'')"
    using get_transcript_list_error [of ytt_api_list video_id] by simp
next
  assume a: "2 \<le> length argv \<and>
    extract_video_id (env_urlparse env) (env_parse_qs env) (argv ! 1) = Inr (Some video_id) \<and>
    video_id \<noteq> [] \<and> get_transcript (env_ytt_api_list env) video_id None = Inl e"
  then have m: "main env argv =
           exit_with [''YouTube URL: '' @ argv ! 1, ''Video ID: '' @ video_id,
                      newline @ ''Fetching transcript...'', ''Error: '' @ str_exn e]"
    using main_error [of argv env video_id e] by simp
  show "exit_status (main env argv) = 1" by (simp add: m exit_with_def)
  show "written (main env argv) = None" by (simp add: m exit_with_def)
  show "uncaught (main env argv) = None" by (simp add: m exit_with_def)
  show "last (stdout (main env argv)) = ''Error: '' @ str_exn e" by (simp add: m exit_with_def)
next
  assume "get_transcript ytt_api_list video_id languages = Inl e"
  then obtain raised where r: "e = reraise raised"
    "get_transcript_body ytt_api_list video_id (languages_or_default languages) = Inl raised"
    by (auto simp: get_transcript_def split: sum.splits)
  from get_transcript_body_error [OF r(2)] r(1)
  show "\<exists>raised. e = reraise raised \<and>
         (ytt_api_list video_id = Inl raised \<or>
          (\<exists>catalog. ytt_api_list video_id = Inr catalog \<and>
             ((\<exists>t\<in>set catalog. fetch t = Inl raised) \<or>
              (catalog = [] \<and> raised = StopIteration))))"
    by blast
qed

theorem resolver_errors_terminal_witness:
  "get_transcript (\<lambda>v. Inl (TranscriptsDisabled ''Subtitles are disabled'')) ''dQw4w9WgXcQ'' None =
     Inl (Exception ''Transcripts are disabled for this video'') \<and>
   get_transcript (\<lambda>v. Inl (VideoUnavailable ''The video is no longer available''))
     ''dQw4w9WgXcQ'' None = Inl (Exception ''Video is unavailable'') \<and>
   get_transcript (\<lambda>v. Inl (NoTranscriptFound ''No transcripts were found'')) ''dQw4w9WgXcQ'' None =
     Inl (Exception ''No transcript found for this video'') \<and>
   exit_status (main \<lparr>env_urlparse = bare_id_parse, env_parse_qs = no_query,
       env_ytt_api_list = (\<lambda>v. Inl (TranscriptsDisabled ''Subtitles are disabled'')),
       env_script_dir = ''/opt/gswarm''\<rparr> [''transcribe_youtube.py'', ''dQw4w9WgXcQ'']) = 1 \<and>
   last (stdout (main \<lparr>env_urlparse = bare_id_parse, env_parse_qs = no_query,
       env_ytt_api_list = (\<lambda>v. Inl (TranscriptsDisabled ''Subtitles are disabled'')),
       env_script_dir = ''/opt/gswarm''\<rparr> [''transcribe_youtube.py'', ''dQw4w9WgXcQ''])) =
     ''Error: Transcripts are disabled for this video'' \<and>
   get_transcript (\<lambda>v. Inr [blocked_track ''fr'' True]) ''dQw4w9WgXcQ'' None =
     Inl (OtherException ''request blocked'')"
proof -
  let ?vid = "''dQw4w9WgXcQ''"
  let ?td = "\<lambda>v::string. (Inl (TranscriptsDisabled ''Subtitles are disabled'') :: exn + transcript list)"
  let ?vu = "\<lambda>v::string. (Inl (VideoUnavailable ''The video is no longer available'') :: exn + transcript list)"
  let ?nf = "\<lambda>v::string. (Inl (NoTranscriptFound ''No transcripts were found'') :: exn + transcript list)"
  let ?bl = "\<lambda>v::string. (Inr [blocked_track ''fr'' True] :: exn + transcript list)"
  let ?env = "\<lparr>env_urlparse = bare_id_parse, env_parse_qs = no_query,
       env_ytt_api_list = ?td, env_script_dir = ''/opt/gswarm''\<rparr>"
  let ?argv = "[''transcribe_youtube.py'', ?vid]"
  have disabled: "get_transcript ?td ?vid None =
      Inl (Exception ''Transcripts are disabled for this video'')"
    using resolver_errors_terminal [where ytt_api_list = ?td and video_id = ?vid
        and m = "''Subtitles are disabled''" and languages = None]
    by blast
  have unavailable: "get_transcript ?vu ?vid None = Inl (Exception ''Video is unavailable'')"
    using resolver_errors_terminal [where ytt_api_list = ?vu and video_id = ?vid
        and m = "''The video is no longer available''" and languages = None]
    by blast
  have not_found: "get_transcript ?nf ?vid None =
      Inl (Exception ''No transcript found for this video'')"
    using resolver_errors_terminal [where ytt_api_list = ?nf and video_id = ?vid
        and m = "''No transcripts were found''" and languages = None]
    by blast
  have run: "2 \<le> length ?argv \<and>
      extract_video_id (env_urlparse ?env) (env_parse_qs ?env) (?argv ! 1) = Inr (Some ?vid) \<and>
      ?vid \<noteq> [] \<and>
      get_transcript (env_ytt_api_list ?env) ?vid None =
        Inl (Exception ''Transcripts are disabled for this video'')"
    using disabled by (simp add: extract_video_id_def bare_id_parse_def)
  from run resolver_errors_terminal [where env = ?env and argv = ?argv and video_id = ?vid
      and e = "Exception ''Transcripts are disabled for this video''"]
  have exits: "exit_status (main ?env ?argv) = 1 \<and>
      last (stdout (main ?env ?argv)) =
        ''Error: '' @ str_exn (Exception ''Transcripts are disabled for this video'')"
    by blast
  have blocked: "get_transcript ?bl ?vid None = Inl (OtherException ''request blocked'')"
    by (simp add: ex_defs get_transcript_def get_transcript_body_def try_preferred_def
      find_manually_created_transcript_def find_generated_transcript_def try_track_def
      first_available_def)
  from blocked resolver_errors_terminal [where ytt_api_list = ?bl and video_id = ?vid
      and languages = None and e = "OtherException ''request blocked''"]
  have "\<exists>raised. OtherException ''request blocked'' = reraise raised \<and>
         (?bl ?vid = Inl raised \<or>
          (\<exists>catalog. ?bl ?vid = Inr catalog \<and>
             ((\<exists>t\<in>set catalog. fetch t = Inl raised) \<or>
              (catalog = [] \<and> raised = StopIteration))))"
    by blast
  with disabled unavailable not_found exits blocked show ?thesis by simp
qed

section \<open>Timestamps\<close>


section \<open>Video identifiers\<close>

text \<open>
  C10. The spec has \<^verbatim>\<open>None\<close> returned for a \<open>youtube.com\<close> watch address whose query
  has no parameter \<open>v\<close>. The address \<open>https://www.youtube.com/watch?feature=youtu.be\<close>
  is one, and \<open>extract_video_id\<close> returns \<open>watch\<close> for it: the test of line 41 looks for
  \<open>youtu.be\<close> in the whole string, not in the network location as the test of line 47
  does for \<open>youtube.com\<close>, so the address is taken for a short one and its stripped path
  is returned. The results of the two parsers are those of the standard library at this
  address.
\<close>

theorem watch_address_taken_for_short_address:
  "extract_video_id
     (\<lambda>u. Inr \<lparr>netloc = ''www.youtube.com'', path = ''/watch'', query = ''feature=youtu.be''\<rparr>)
     (\<lambda>q. [''feature'' \<mapsto> [''youtu.be'']])
     ''https://www.youtube.com/watch?feature=youtu.be'' = Inr (Some ''watch'')"
  by (simp add: extract_video_id_def strip_def)

end
